theory Spec2Isabelle
  imports Complex_Main "HOL-Library.AList" "HOL-Library.Sublist"
begin

section \<open>Step playback\<close>

text \<open>
  JavaScript numbers that only ever hold step indices are modelled as \<open>int\<close>
  (the cursor can become negative, so \<open>nat\<close> would hide behaviour).
  A promise that settles is a sum: \<open>Inl\<close> a rejection, \<open>Inr\<close> the resolved value.
\<close>

datatype js_error = TypeError | SyntaxError | ApiError string

subsection \<open>algovision-pro/App.tsx\<close>

text \<open>
  The React state of \<open>App\<close>: \<open>steps\<close>, \<open>currentStepIdx\<close>, \<open>isPlaying\<close>, \<open>isLoading\<close>.
  \<open>console\<close> collects the calls of \<open>console.error(message, error)\<close> made by
  \<open>handleRun\<close> and by the \<open>simulateCode\<close> it awaits, each as the message with the
  error object passed after it; nothing of it reaches the page.
\<close>

type_synonym console_line = "string \<times> js_error"

record 'a app_state =
  steps :: "'a list"
  currentStepIdx :: int
  isPlaying :: bool
  isLoading :: bool
  console :: "console_line list"

text \<open>
  \<^verbatim>\<open>onClick={() => { setCurrentStepIdx(Math.max(0, currentStepIdx - 1)); setIsPlaying(false); }}\<close>
\<close>

definition prev_click :: "'a app_state \<Rightarrow> 'a app_state" where
  "prev_click st = st\<lparr>currentStepIdx := max 0 (currentStepIdx st - 1), isPlaying := False\<rparr>"

text \<open>
  \<^verbatim>\<open>onClick={() => { setCurrentStepIdx(Math.min(steps.length - 1, currentStepIdx + 1)); setIsPlaying(false); }}\<close>
\<close>

definition next_click :: "'a app_state \<Rightarrow> 'a app_state" where
  "next_click st =
     st\<lparr>currentStepIdx := min (int (length (steps st)) - 1) (currentStepIdx st + 1),
        isPlaying := False\<rparr>"

text \<open>
  The interval of the auto-play effect exists only while
  \<open>isPlaying && steps.length > 0\<close>; its callback is
  \<^verbatim>\<open>setCurrentStepIdx(prev => { if (prev >= steps.length - 1) { setIsPlaying(false); return prev; } return prev + 1; })\<close>
\<close>

definition tick :: "'a app_state \<Rightarrow> 'a app_state" where
  "tick st =
     (if isPlaying st \<and> length (steps st) > 0 then
        (if currentStepIdx st \<ge> int (length (steps st)) - 1
         then st\<lparr>isPlaying := False\<rparr>
         else st\<lparr>currentStepIdx := currentStepIdx st + 1\<rparr>)
      else st)"

text \<open>
  \<open>handleRun\<close>: \<open>setIsLoading(true)\<close>, then the awaited \<open>simulateCode\<close> settles with
  \<open>outcome\<close>; on success \<open>setSteps\<close>, \<open>setCurrentStepIdx(0)\<close> and
  \<open>if (resultSteps.length > 0) setIsPlaying(true)\<close>; on rejection only
  \<open>console.error("Simulation error:", err)\<close>; \<open>finally\<close> \<open>setIsLoading(false)\<close>.
\<close>

definition handleRun_start :: "'a app_state \<Rightarrow> 'a app_state" where
  "handleRun_start st = st\<lparr>isLoading := True\<rparr>"

definition handleRun_settle :: "'a app_state \<Rightarrow> js_error + 'a list \<Rightarrow> 'a app_state" where
  "handleRun_settle st outcome =
     (case outcome of
        Inr resultSteps \<Rightarrow>
          st\<lparr>steps := resultSteps, currentStepIdx := 0,
             isPlaying := (if length resultSteps > 0 then True else isPlaying st),
             isLoading := False\<rparr>
      | Inl err \<Rightarrow>
          st\<lparr>console := console st @ [(''Simulation error:'', err)], isLoading := False\<rparr>)"

definition handleRun :: "'a app_state \<Rightarrow> js_error + 'a list \<Rightarrow> 'a app_state" where
  "handleRun st outcome = handleRun_settle (handleRun_start st) outcome"

subsection \<open>Hologram engine (unnamed/part_004)\<close>

text \<open>
  \<open>algoMetadata\<close> is \<open>null\<close> or the loaded metadata; playback reads only its
  \<open>steps\<close> array, which is what the option holds. \<open>alerts\<close> collects the
  \<open>alert(...)\<close> dialogs shown to the user.
\<close>

record 'a holo_state =
  algoMetadata :: "'a list option"
  currentStepIndex :: int
  isHologramPlaying :: bool
  isHologramLoading :: bool
  alerts :: "string list"

text \<open>
  \<^verbatim>\<open>if (!algoMetadata) return;
setCurrentStepIndex((prev) => (prev < algoMetadata.steps.length - 1 ? prev + 1 : prev));\<close>
\<close>

definition hologramNextStep :: "'a holo_state \<Rightarrow> 'a holo_state" where
  "hologramNextStep st =
     (case algoMetadata st of
        None \<Rightarrow> st
      | Some ss \<Rightarrow>
          st\<lparr>currentStepIndex :=
               (if currentStepIndex st < int (length ss) - 1
                then currentStepIndex st + 1 else currentStepIndex st)\<rparr>)"

text \<open>\<^verbatim>\<open>setCurrentStepIndex((prev) => (prev > 0 ? prev - 1 : 0));\<close>\<close>

definition hologramPrevStep :: "'a holo_state \<Rightarrow> 'a holo_state" where
  "hologramPrevStep st =
     st\<lparr>currentStepIndex := (if currentStepIndex st > 0 then currentStepIndex st - 1 else 0)\<rparr>"

text \<open>
  The playback interval exists only while \<open>isHologramPlaying && algoMetadata\<close>:
  \<^verbatim>\<open>if (prev < algoMetadata.steps.length - 1) { return prev + 1; } else { setIsHologramPlaying(false); return prev; }\<close>
\<close>

definition hologramTick :: "'a holo_state \<Rightarrow> 'a holo_state" where
  "hologramTick st =
     (case algoMetadata st of
        None \<Rightarrow> st
      | Some ss \<Rightarrow>
          if isHologramPlaying st then
            (if currentStepIndex st < int (length ss) - 1
             then st\<lparr>currentStepIndex := currentStepIndex st + 1\<rparr>
             else st\<lparr>isHologramPlaying := False\<rparr>)
          else st)"

text \<open>\<open>String.prototype.includes\<close>: does \<open>p\<close> occur in \<open>s\<close> as a contiguous run?\<close>

fun str_includes :: "string \<Rightarrow> string \<Rightarrow> bool" where
  "str_includes [] p = (p = [])"
| "str_includes (c # s) p = (prefix p (c # s) \<or> str_includes s p)"

text \<open>The line feed that \<open>\\n\<close> stands for in a template literal.\<close>

definition newline :: string where
  "newline = [CHR 0x0A]"

text \<open>
  The three \<open>alert\<close> texts of the \<open>catch\<close> branch of \<open>handleHologramAnalyze\<close>:
  \<^verbatim>\<open>if (errorMsg.includes('503') || errorMsg.includes('overloaded') || errorMsg.includes('UNAVAILABLE')) {
  alert(`API Service Temporarily Unavailable\n\nThe AI service is overloaded. Please wait a moment and try again.`);
} else if (errorMsg.includes('429') || errorMsg.includes('rate limit')) {
  alert(`Rate Limit Exceeded\n\nPlease wait a few moments before trying again.`);
} else {
  alert(`Analysis failed: ${errorMsg}\n\nPlease check your code and input, then try again.`);
}\<close>
\<close>

definition analysis_alert :: "string \<Rightarrow> string" where
  "analysis_alert errorMsg =
     (if str_includes errorMsg ''503'' \<or> str_includes errorMsg ''overloaded''
         \<or> str_includes errorMsg ''UNAVAILABLE''
      then ''API Service Temporarily Unavailable'' @ newline @ newline
           @ ''The AI service is overloaded. Please wait a moment and try again.''
      else if str_includes errorMsg ''429'' \<or> str_includes errorMsg ''rate limit''
      then ''Rate Limit Exceeded'' @ newline @ newline
           @ ''Please wait a few moments before trying again.''
      else ''Analysis failed: '' @ errorMsg @ newline @ newline
           @ ''Please check your code and input, then try again.'')"

text \<open>
  \<open>handleHologramAnalyze\<close>. \<open>analyzeAlgorithm\<close> lives outside the sources at hand, so its
  settled promise is the parameter \<open>outcome\<close>: \<open>Inl\<close> the message of the thrown error,
  \<open>Inr\<close> the steps of the returned metadata. Success: \<open>setAlgoMetadata(result)\<close>,
  \<open>setCurrentStepIndex(0)\<close>, \<open>setIsHologramPlaying(true)\<close>. Failure: an \<open>alert\<close>
  (the \<open>console.error\<close> before it is not part of \<open>holo_state\<close>, which keeps what the
  page shows). \<open>finally\<close>: \<open>setIsHologramLoading(false)\<close>.
\<close>

definition handleHologramAnalyze_start :: "'a holo_state \<Rightarrow> 'a holo_state" where
  "handleHologramAnalyze_start st = st\<lparr>isHologramLoading := True\<rparr>"

definition handleHologramAnalyze_settle ::
  "'a holo_state \<Rightarrow> string + 'a list \<Rightarrow> 'a holo_state" where
  "handleHologramAnalyze_settle st outcome =
     (case outcome of
        Inr result \<Rightarrow>
          st\<lparr>algoMetadata := Some result, currentStepIndex := 0,
             isHologramPlaying := True, isHologramLoading := False\<rparr>
      | Inl errorMsg \<Rightarrow>
          st\<lparr>alerts := alerts st @ [analysis_alert errorMsg], isHologramLoading := False\<rparr>)"

definition handleHologramAnalyze :: "'a holo_state \<Rightarrow> string + 'a list \<Rightarrow> 'a holo_state" where
  "handleHologramAnalyze st outcome =
     handleHologramAnalyze_settle (handleHologramAnalyze_start st) outcome"

subsection \<open>Runs of playback operations\<close>

datatype playback_op = Next | Prev | Tick

fun app_step :: "'a app_state \<Rightarrow> playback_op \<Rightarrow> 'a app_state" where
  "app_step st Next = next_click st"
| "app_step st Prev = prev_click st"
| "app_step st Tick = tick st"

fun app_run :: "'a app_state \<Rightarrow> playback_op list \<Rightarrow> 'a app_state" where
  "app_run st [] = st"
| "app_run st (a # as) = app_run (app_step st a) as"

fun holo_step :: "'a holo_state \<Rightarrow> playback_op \<Rightarrow> 'a holo_state" where
  "holo_step st Next = hologramNextStep st"
| "holo_step st Prev = hologramPrevStep st"
| "holo_step st Tick = hologramTick st"

fun holo_run :: "'a holo_state \<Rightarrow> playback_op list \<Rightarrow> 'a holo_state" where
  "holo_run st [] = st"
| "holo_run st (a # as) = holo_run (holo_step st a) as"

text \<open>The cursor invariant of the data model: \<open>0 \<le> currentIndex < length\<close>.\<close>

definition app_cursor_ok :: "'a app_state \<Rightarrow> bool" where
  "app_cursor_ok st \<longleftrightarrow>
     0 \<le> currentStepIdx st \<and> currentStepIdx st \<le> int (length (steps st)) - 1"

definition holo_cursor_ok :: "'a holo_state \<Rightarrow> bool" where
  "holo_cursor_ok st \<longleftrightarrow>
     (case algoMetadata st of
        None \<Rightarrow> False
      | Some ss \<Rightarrow> 0 \<le> currentStepIndex st \<and> currentStepIndex st \<le> int (length ss) - 1)"

section \<open>Interaction overlay and linear layout\<close>

text \<open>
  Coordinates and distances are JavaScript numbers; they are modelled as \<open>real\<close>,
  so rounding is not part of the model. Where a claim is about \<open>NaN\<close> or
  \<open>Infinity\<close> the type \<open>jsnum\<close> further down is used instead.
\<close>

subsection \<open>Pinch hysteresis\<close>

text \<open>
  unnamed/part_002:
  \<^verbatim>\<open>const pinchOn = 0.06; const pinchOff = 0.09;
const isPinching = isPinchingRef.current ? dist < pinchOff : dist < pinchOn;\<close>
\<close>

definition pinchOn :: real where
  "pinchOn = 0.06"

definition pinchOff :: real where
  "pinchOff = 0.09"

definition isPinching_of :: "bool \<Rightarrow> real \<Rightarrow> bool" where
  "isPinching_of isPinchingRef dst = (if isPinchingRef then dst < pinchOff else dst < pinchOn)"

text \<open>algovision-pro/components/Visualizer.tsx: the same test with 0.055 and 0.075.\<close>

definition pinchOn_tsx :: real where
  "pinchOn_tsx = 0.055"

definition pinchOff_tsx :: real where
  "pinchOff_tsx = 0.075"

definition isPinching_tsx :: "bool \<Rightarrow> real \<Rightarrow> bool" where
  "isPinching_tsx isPinchingRef dst =
     (if isPinchingRef then dst < pinchOff_tsx else dst < pinchOn_tsx)"

text \<open>
  One tracking frame either carries a pinch distance (\<open>Some dst\<close>, the source's \<open>dist\<close>) or no hand at all
  (\<open>None\<close>: the \<open>else\<close> branch sets \<open>isPinchingRef.current = false\<close>). The functions
  return the value of \<open>isPinchingRef\<close> after each frame.
\<close>

fun pinch_frame :: "bool \<Rightarrow> real option \<Rightarrow> bool" where
  "pinch_frame p None = False"
| "pinch_frame p (Some dst) = isPinching_of p dst"

fun pinch_trace :: "bool \<Rightarrow> real option list \<Rightarrow> bool list" where
  "pinch_trace p [] = []"
| "pinch_trace p (f # fs) = pinch_frame p f # pinch_trace (pinch_frame p f) fs"

fun pinch_frame_tsx :: "bool \<Rightarrow> real option \<Rightarrow> bool" where
  "pinch_frame_tsx p None = False"
| "pinch_frame_tsx p (Some dst) = isPinching_tsx p dst"

fun pinch_trace_tsx :: "bool \<Rightarrow> real option list \<Rightarrow> bool list" where
  "pinch_trace_tsx p [] = []"
| "pinch_trace_tsx p (f # fs) = pinch_frame_tsx p f # pinch_trace_tsx (pinch_frame_tsx p f) fs"

text \<open>The value of \<open>isPinchingRef\<close> that frame \<open>i\<close> of a trace finds.\<close>

definition was_pinching :: "bool \<Rightarrow> bool list \<Rightarrow> nat \<Rightarrow> bool" where
  "was_pinching p0 trace i = (if i = 0 then p0 else trace ! (i - 1))"

subsection \<open>Linear layout\<close>

record pos =
  pos_x :: real
  pos_y :: real

text \<open>Decimal digits of an index, for the keys \<open>item-0\<close>, \<open>item-1\<close>, ...\<close>

definition digit_char :: "nat \<Rightarrow> char" where
  "digit_char d = char_of (48 + d)"

fun string_of_nat :: "nat \<Rightarrow> string" where
  "string_of_nat n =
     (if n < 10 then [digit_char n] else string_of_nat (n div 10) @ [digit_char (n mod 10)])"

definition item_id :: "nat \<Rightarrow> string" where
  "item_id i = ''item-'' @ string_of_nat i"

text \<open>unnamed/part_002: \<open>blockW = 90\<close>, \<open>blockH = 90\<close>, \<open>gap = 35\<close>.\<close>

definition blockW :: real where
  "blockW = 90"

definition blockH :: real where
  "blockH = 90"

definition gap :: real where
  "gap = 35"

text \<open>
  \<^verbatim>\<open>const totalWidth = dataLength * (blockW + gap) - gap;
const startX = Math.max(width * 0.42, (width - totalWidth) / 2);
const startY = height / 2 - blockH / 2;
for (let i = 0; i < dataLength; i++)
  positions[`item-${i}`] = { x: startX + i * (blockW + gap), y: startY };\<close>
  The record of positions is an association list in insertion order.
\<close>

definition totalWidth :: "nat \<Rightarrow> real" where
  "totalWidth dataLength = real dataLength * (blockW + gap) - gap"

definition startX :: "nat \<Rightarrow> real \<Rightarrow> real" where
  "startX dataLength width = max (width * 0.42) ((width - totalWidth dataLength) / 2)"

definition getBasePositions :: "nat \<Rightarrow> real \<Rightarrow> real \<Rightarrow> (string \<times> pos) list" where
  "getBasePositions dataLength width height =
     map (\<lambda>i. (item_id i,
               \<lparr>pos_x = startX dataLength width + real i * (blockW + gap),
                pos_y = height / 2 - blockH / 2\<rparr>))
         [0..<dataLength]"

text \<open>
  algovision-pro/components/Visualizer.tsx: \<open>blockW = 60\<close>, \<open>gap = 14\<close>,
  \<^verbatim>\<open>const totalWidth = data.length * (blockW + gap) - gap;
const startX = Math.max(width * 0.45, (width * 0.4) + (width * 0.55 - totalWidth) / 2);
... translate(${startX + i * (blockW + gap) + off.dx}, ...)\<close>
\<close>

definition blockW_tsx :: real where
  "blockW_tsx = 60"

definition gap_tsx :: real where
  "gap_tsx = 14"

definition totalWidth_tsx :: "nat \<Rightarrow> real" where
  "totalWidth_tsx n = real n * (blockW_tsx + gap_tsx) - gap_tsx"

definition startX_tsx :: "nat \<Rightarrow> real \<Rightarrow> real" where
  "startX_tsx n width =
     max (width * 0.45) (width * 0.4 + (width * 0.55 - totalWidth_tsx n) / 2)"

definition item_x_tsx :: "nat \<Rightarrow> real \<Rightarrow> nat \<Rightarrow> real \<Rightarrow> real" where
  "item_x_tsx n width i dx = startX_tsx n width + real i * (blockW_tsx + gap_tsx) + dx"

text \<open>
  Hologram renderer, array branch of \<open>renderStructure\<close> (unnamed/part_004), entered only
  with \<open>data.length > 0\<close>:
  \<^verbatim>\<open>const spacing = 90;
const arrStartX = -(Math.max(data.length - 1, 0) * spacing / 2);
data.map((val, idx) => renderNode(val, idx, arrStartX + idx * spacing, 0, ...))\<close>
\<close>

definition arrStartX :: "nat \<Rightarrow> real" where
  "arrStartX n = - (max (real n - 1) 0 * 90 / 2)"

definition arr_node_x :: "nat \<Rightarrow> nat \<Rightarrow> real" where
  "arr_node_x n idx = arrStartX n + real idx * 90"

text \<open>
  The formula in the words of the specification: element \<open>i\<close> of \<open>n\<close>, pitch \<open>p\<close>,
  centre anchor \<open>a\<close>.
\<close>

definition linear_layout_spec :: "real \<Rightarrow> real \<Rightarrow> nat \<Rightarrow> nat \<Rightarrow> real" where
  "linear_layout_spec a p n i = a + real i * p - (real n - 1) * p / 2"

subsection \<open>Release of a grabbed element (unnamed/part_002)\<close>

text \<open>
  The refs and state the hand-tracking effect works on. \<open>elementPositions\<close> is the
  record keyed by \<open>item-i\<close>, as an association list in the order of
  \<open>Object.entries\<close>; its keys are distinct.
\<close>

record overlay =
  elementPositions :: "(string \<times> pos) list"
  grabbedId :: "string option"
  grabbedStartPos :: "pos option"
  hoveredId :: "string option"
  isPinchingRef :: bool
  wasPinchingRef :: bool










text \<open>
  No hand detected: \<open>if (grabbedIdRef.current && grabbedStartPosRef.current)\<close> the grabbed
  element returns to its start position; all refs are reset.
\<close>

definition tracking_lost :: "overlay \<Rightarrow> overlay" where
  "tracking_lost st =
     st\<lparr>elementPositions :=
          (case (grabbedId st, grabbedStartPos st) of
             (Some g, Some startPos) \<Rightarrow>
               if g \<noteq> [] then AList.update g startPos (elementPositions st)
               else elementPositions st
           | _ \<Rightarrow> elementPositions st),
        grabbedId := None, grabbedStartPos := None, hoveredId := None,
        isPinchingRef := False, wasPinchingRef := False\<rparr>"




section \<open>Tree layout of the hologram renderer (unnamed/part_004)\<close>

text \<open>
  An entry of \<open>treeNodes\<close>. The same node objects are shared between \<open>treeNodes\<close> and
  the lists of \<open>levelNodes\<close>; the model keeps the nodes in one list (the store) and
  refers to a node by its index in that list.
\<close>

record 'v tree_node =
  node_id :: nat
  node_val :: 'v
  node_level :: nat
  node_x :: real
  node_y :: real
  node_parentId :: "nat option"
  node_children :: "nat list"

definition levelHeight :: real where
  "levelHeight = 90"

text \<open>\<open>Math.floor(Math.log2(n))\<close> for an integer \<open>n \<ge> 1\<close>.\<close>

fun log2_floor :: "nat \<Rightarrow> nat" where
  "log2_floor n = (if n < 2 then 0 else Suc (log2_floor (n div 2)))"

text \<open>
  The level-order branch of the parser: \<open>data\<close> is an array whose entry is \<open>None\<close>
  where the source finds \<open>null\<close> or \<open>'null'\<close>.
  \<^verbatim>\<open>data.forEach((val, idx) => {
  if (val !== null && val !== undefined && val !== 'null') {
    const level = Math.floor(Math.log2(idx + 1));
    const parentIdx = idx === 0 ? null : Math.floor((idx - 1) / 2);
    const leftChild = 2 * idx + 1;  const rightChild = 2 * idx + 2;
    if (leftChild < data.length && data[leftChild] !== null && data[leftChild] !== 'null') children.push(leftChild);
    if (rightChild < data.length && ...) children.push(rightChild);
    treeNodes.push({ id: idx, val, level, x: 0, y: level * levelHeight, parentId: parentIdx, children });
  }});\<close>
\<close>

definition child_present :: "'v option list \<Rightarrow> nat \<Rightarrow> bool" where
  "child_present data c \<longleftrightarrow> c < length data \<and> data ! c \<noteq> None"

definition level_order_node :: "'v option list \<Rightarrow> nat \<Rightarrow> 'v \<Rightarrow> 'v tree_node" where
  "level_order_node data idx v =
     \<lparr>node_id = idx, node_val = v, node_level = log2_floor (idx + 1), node_x = 0,
      node_y = real (log2_floor (idx + 1)) * levelHeight,
      node_parentId = (if idx = 0 then None else Some ((idx - 1) div 2)),
      node_children = filter (child_present data) [2 * idx + 1, 2 * idx + 2]\<rparr>"

definition parse_level_order :: "'v option list \<Rightarrow> 'v tree_node list" where
  "parse_level_order data =
     List.map_filter
       (\<lambda>idx. case data ! idx of None \<Rightarrow> None | Some v \<Rightarrow> Some (level_order_node data idx v))
       [0..<length data]"

text \<open>\<open>node.x = v\<close> for the node at index \<open>r\<close> of the store.\<close>

definition set_x :: "'v tree_node list \<Rightarrow> nat \<Rightarrow> real \<Rightarrow> 'v tree_node list" where
  "set_x ns r v = ns[r := (ns ! r)\<lparr>node_x := v\<rparr>]"

text \<open>\<open>levelNodes.get(level) || []\<close>: the nodes of a level, in the order of \<open>treeNodes\<close>.\<close>

definition levelNodes :: "'v tree_node list \<Rightarrow> nat \<Rightarrow> nat list" where
  "levelNodes ns level = filter (\<lambda>r. node_level (ns ! r) = level) [0..<length ns]"

text \<open>
  \<^verbatim>\<open>const maxLevel = Math.max(...levelKeys);
const maxChildren = Math.max(...treeNodes.map(n => n.children.length), 2);
const baseSpacing = Math.max(70, 100 / maxChildren);\<close>
  (levels are never negative, so folding \<open>max\<close> from 0 is the maximum of a non-empty list).
\<close>

definition maxLevel :: "'v tree_node list \<Rightarrow> nat" where
  "maxLevel ns = foldr max (map node_level ns) 0"

definition maxChildren :: "'v tree_node list \<Rightarrow> nat" where
  "maxChildren ns = foldr max (map (\<lambda>n. length (node_children n)) ns) 2"

definition baseSpacing :: "'v tree_node list \<Rightarrow> real" where
  "baseSpacing ns = max 70 (100 / real (maxChildren ns))"

text \<open>
  Bottom level:
  \<^verbatim>\<open>const totalWidth = (nodes.length - 1) * baseSpacing;
nodes.forEach((node, i) => { node.x = -totalWidth / 2 + i * baseSpacing; });\<close>
\<close>

definition place_bottom :: "'v tree_node list \<Rightarrow> nat list \<Rightarrow> 'v tree_node list" where
  "place_bottom ns nodes =
     foldl (\<lambda>st (i, r).
              set_x st r (- ((real (length nodes) - 1) * baseSpacing ns) / 2
                          + real i * baseSpacing ns))
           ns (enumerate 0 nodes)"

text \<open>
  Other levels:
  \<^verbatim>\<open>nodes.forEach(node => {
  const childNodes = treeNodes.filter(n => node.children.includes(n.id));
  if (childNodes.length > 0) {
    const childXSum = childNodes.reduce((sum, c) => sum + c.x, 0);
    node.x = childXSum / childNodes.length;
  } else {
    const idx = levelNodesList.indexOf(node);
    const levelSpacing = baseSpacing * Math.pow(maxChildren, maxLevel - level);
    const totalWidth = (levelNodesList.length - 1) * levelSpacing;
    node.x = -totalWidth / 2 + idx * levelSpacing;
  }});\<close>
\<close>

definition place_inner :: "'v tree_node list \<Rightarrow> nat \<Rightarrow> nat list \<Rightarrow> 'v tree_node list" where
  "place_inner ns level nodes =
     foldl (\<lambda>st (idx, r).
              let childNodes = filter (\<lambda>n. node_id n \<in> set (node_children (st ! r))) st in
              if length childNodes > 0 then
                set_x st r (foldl (\<lambda>sum c. sum + node_x c) 0 childNodes
                            / real (length childNodes))
              else
                let levelSpacing = baseSpacing ns * real (maxChildren ns) ^ (maxLevel ns - level);
                    totalWidth' = (real (length nodes) - 1) * levelSpacing
                in set_x st r (- totalWidth' / 2 + real idx * levelSpacing))
           ns (enumerate 0 nodes)"

definition place_level :: "'v tree_node list \<Rightarrow> nat \<Rightarrow> 'v tree_node list" where
  "place_level ns level =
     (if level = maxLevel ns then place_bottom ns (levelNodes ns level)
      else place_inner ns level (levelNodes ns level))"

text \<open>\<open>for (let level = maxLevel; level >= 0; level--)\<close>\<close>

definition place_nodes :: "'v tree_node list \<Rightarrow> 'v tree_node list" where
  "place_nodes ns = foldl place_level ns (rev [0..<Suc (maxLevel ns)])"

text \<open>
  Resolve overlaps:
  \<^verbatim>\<open>for (let level = 0; level <= maxLevel; level++) {
  const nodes = (levelNodes.get(level) || []).sort((a, b) => a.x - b.x);
  for (let i = 1; i < nodes.length; i++) {
    const minGap = baseSpacing * 0.8;
    if (nodes[i].x - nodes[i-1].x < minGap) {
      const shift = (minGap - (nodes[i].x - nodes[i-1].x)) / 2;
      nodes[i-1].x -= shift;
      nodes[i].x += shift;
    }
  }
}\<close>
  The sort (stable) is done once per level, before the pairs are visited.
\<close>

definition minGap :: "'v tree_node list \<Rightarrow> real" where
  "minGap ns = baseSpacing ns * 0.8"

definition resolve_pair :: "'v tree_node list \<Rightarrow> nat \<times> nat \<Rightarrow> 'v tree_node list" where
  "resolve_pair ns pr =
     (case pr of (a, b) \<Rightarrow>
        if node_x (ns ! b) - node_x (ns ! a) < minGap ns then
          let shift = (minGap ns - (node_x (ns ! b) - node_x (ns ! a))) / 2;
              ns1 = set_x ns a (node_x (ns ! a) - shift)
          in set_x ns1 b (node_x (ns1 ! b) + shift)
        else ns)"

definition resolve_level :: "'v tree_node list \<Rightarrow> nat \<Rightarrow> 'v tree_node list" where
  "resolve_level ns level =
     (let nodes = sort_key (\<lambda>r. node_x (ns ! r)) (levelNodes ns level)
      in foldl resolve_pair ns (zip nodes (tl nodes)))"

definition resolve_overlaps :: "'v tree_node list \<Rightarrow> 'v tree_node list" where
  "resolve_overlaps ns = foldl resolve_level ns [0..<Suc (maxLevel ns)]"

text \<open>
  Centre the tree:
  \<^verbatim>\<open>const offsetX = -(minX + maxX) / 2;  treeNodes.forEach(n => n.x += offsetX);
const offsetY = -(minY + maxY) / 2;  treeNodes.forEach(n => n.y += offsetY);\<close>
\<close>

definition list_min :: "real list \<Rightarrow> real" where
  "list_min xs = foldl min (hd xs) (tl xs)"

definition list_max :: "real list \<Rightarrow> real" where
  "list_max xs = foldl max (hd xs) (tl xs)"

definition center_tree :: "'v tree_node list \<Rightarrow> 'v tree_node list" where
  "center_tree ns =
     (let offsetX = - (list_min (map node_x ns) + list_max (map node_x ns)) / 2;
          offsetY = - (list_min (map node_y ns) + list_max (map node_y ns)) / 2
      in map (\<lambda>n. n\<lparr>node_x := node_x n + offsetX, node_y := node_y n + offsetY\<rparr>) ns)"

text \<open>\<open>calculatePositions\<close>, with its guard \<open>if (treeNodes.length === 0) return\<close>.\<close>

definition calculatePositions :: "'v tree_node list \<Rightarrow> 'v tree_node list" where
  "calculatePositions ns =
     (if ns = [] then ns else center_tree (resolve_overlaps (place_nodes ns)))"

text \<open>
  What "overlaps resolved" asks: on every level, the gaps between horizontally
  adjacent nodes (the x-coordinates in ascending order) are at least \<open>minGap\<close>.
\<close>

definition level_gaps :: "'v tree_node list \<Rightarrow> nat \<Rightarrow> real list" where
  "level_gaps ns level =
     (let xs = sort (map node_x (filter (\<lambda>n. node_level n = level) ns))
      in map (\<lambda>(a, b). b - a) (zip xs (tl xs)))"

definition overlaps_resolved :: "'v tree_node list \<Rightarrow> bool" where
  "overlaps_resolved ns \<longleftrightarrow>
     list_all (\<lambda>level. list_all (\<lambda>g. minGap ns \<le> g) (level_gaps ns level))
       [0..<Suc (maxLevel ns)]"

definition unbalanced_level_order :: "nat option list" where
  "unbalanced_level_order =
     [Some 1, Some 2, Some 3, Some 4, Some 5, Some 6, None, Some 7, None, None, None, Some 8]"

section \<open>Coordinates handed to the renderer (unnamed/part_004)\<close>

text \<open>
  A JavaScript number where \<open>NaN\<close> and the infinities matter: a real, or one of the
  three special values. Rounding and overflow are not modelled, and the sign of a
  zero is not kept (it would only matter as a divisor, and the one division below
  divides by an array length, which is never \<open>-0\<close>).
\<close>

datatype jsnum = Fin real | PInf | NInf | NaN

fun isFinite :: "jsnum \<Rightarrow> bool" where
  "isFinite (Fin r) = True"
| "isFinite PInf = False"
| "isFinite NInf = False"
| "isFinite NaN = False"

fun js_neg :: "jsnum \<Rightarrow> jsnum" where
  "js_neg (Fin r) = Fin (- r)"
| "js_neg PInf = NInf"
| "js_neg NInf = PInf"
| "js_neg NaN = NaN"

fun js_add :: "jsnum \<Rightarrow> jsnum \<Rightarrow> jsnum" where
  "js_add NaN b = NaN"
| "js_add a NaN = NaN"
| "js_add (Fin a) (Fin b) = Fin (a + b)"
| "js_add PInf NInf = NaN"
| "js_add NInf PInf = NaN"
| "js_add PInf b = PInf"
| "js_add NInf b = NInf"
| "js_add (Fin a) PInf = PInf"
| "js_add (Fin a) NInf = NInf"

definition js_sub :: "jsnum \<Rightarrow> jsnum \<Rightarrow> jsnum" where
  "js_sub a b = js_add a (js_neg b)"

text \<open>The sign of a non-NaN number: 1, 0 or -1.\<close>

fun js_sign :: "jsnum \<Rightarrow> real" where
  "js_sign (Fin r) = sgn r"
| "js_sign PInf = 1"
| "js_sign NInf = - 1"
| "js_sign NaN = 0"

fun js_mult :: "jsnum \<Rightarrow> jsnum \<Rightarrow> jsnum" where
  "js_mult NaN b = NaN"
| "js_mult a NaN = NaN"
| "js_mult (Fin a) (Fin b) = Fin (a * b)"
| "js_mult a b =
     (if js_sign a * js_sign b = 0 then NaN
      else if js_sign a * js_sign b > 0 then PInf else NInf)"

text \<open>Division by an array length \<open>cnt\<close> (\<open>+0\<close> when the array is empty).\<close>

fun js_div_count :: "jsnum \<Rightarrow> nat \<Rightarrow> jsnum" where
  "js_div_count NaN cnt = NaN"
| "js_div_count PInf cnt = PInf"
| "js_div_count NInf cnt = NInf"
| "js_div_count (Fin a) cnt =
     (if cnt \<noteq> 0 then Fin (a / real cnt)
      else if a = 0 then NaN
      else if a > 0 then PInf else NInf)"

text \<open>\<open>Math.cos\<close> and \<open>Math.sin\<close>: \<open>NaN\<close> at \<open>NaN\<close> and at the infinities.\<close>

fun js_cos :: "jsnum \<Rightarrow> jsnum" where
  "js_cos (Fin r) = Fin (cos r)"
| "js_cos v = NaN"

fun js_sin :: "jsnum \<Rightarrow> jsnum" where
  "js_sin (Fin r) = Fin (sin r)"
| "js_sin v = NaN"

text \<open>\<open>v >= 0\<close>: false for \<open>NaN\<close>.\<close>

fun js_ge0 :: "jsnum \<Rightarrow> bool" where
  "js_ge0 (Fin r) = (0 \<le> r)"
| "js_ge0 PInf = True"
| "js_ge0 NInf = False"
| "js_ge0 NaN = False"

text \<open>
  \<open>renderNode\<close>, as far as coordinates go:
  \<^verbatim>\<open>// Sanitize coordinates to prevent "Infinity" errors
const safeX = Number.isFinite(x) ? x : 0;
const safeY = Number.isFinite(y) ? y : 0;
... style={{ left: safeX, top: safeY, ... }}\<close>
\<close>

record node_style =
  style_left :: jsnum
  style_top :: jsnum

definition renderNode :: "jsnum \<Rightarrow> jsnum \<Rightarrow> node_style" where
  "renderNode x y =
     \<lparr>style_left = (if isFinite x then x else Fin 0),
      style_top = (if isFinite y then y else Fin 0)\<rparr>"

text \<open>
  The graph branch of \<open>renderStructure\<close>. \<open>nodes\<close> is the list of node ids
  (\<open>String(n.id)\<close>). An end of an edge (\<open>edge.source\<close>, \<open>edge.from\<close>, \<open>edge.target\<close>,
  \<open>edge.to\<close>) is absent, a number, or another value, kept as its \<open>String(...)\<close>.
\<close>

datatype endpoint = Undefined | NumEnd jsnum | OtherEnd string

record graph_edge =
  edge_source :: endpoint
  edge_from :: endpoint
  edge_target :: endpoint
  edge_to :: endpoint

text \<open>\<open>nodes.findIndex((n) => n.id === s)\<close>: the first index, or \<open>-1\<close>.\<close>

fun findIndex_from :: "nat \<Rightarrow> string list \<Rightarrow> string \<Rightarrow> jsnum" where
  "findIndex_from i [] s = Fin (- 1)"
| "findIndex_from i (n # ns) s = (if n = s then Fin (real i) else findIndex_from (Suc i) ns s)"

text \<open>
  \<^verbatim>\<open>if (typeof edge.source !== 'undefined') {
  fromIdx = typeof edge.source === 'number' ? edge.source : nodes.findIndex((n) => n.id === String(edge.source));
} else if (typeof edge.from !== 'undefined') { ... edge.from ... }\<close>
  with \<open>fromIdx\<close> initially \<open>-1\<close>; the same for \<open>toIdx\<close> from \<open>edge.target\<close> and \<open>edge.to\<close>.
\<close>

fun end_index :: "string list \<Rightarrow> endpoint \<Rightarrow> jsnum" where
  "end_index nodes Undefined = Fin (- 1)"
| "end_index nodes (NumEnd v) = v"
| "end_index nodes (OtherEnd s) = findIndex_from 0 nodes s"

definition edge_index :: "string list \<Rightarrow> endpoint \<Rightarrow> endpoint \<Rightarrow> jsnum" where
  "edge_index nodes first second =
     (if first \<noteq> Undefined then end_index nodes first else end_index nodes second)"

text \<open>
  \<^verbatim>\<open>const radius = Math.max(120, nodeCount * 35);
const getGraphCoords = (idx, total) => {
  const angle = (2 * Math.PI * idx / total) - Math.PI / 2;
  return { x: Math.cos(angle) * radius, y: Math.sin(angle) * radius };
};\<close>
\<close>

definition graph_radius :: "nat \<Rightarrow> real" where
  "graph_radius nodeCount = max 120 (real nodeCount * 35)"

definition graph_angle :: "jsnum \<Rightarrow> nat \<Rightarrow> jsnum" where
  "graph_angle idx cnt =
     js_sub (js_div_count (js_mult (Fin (2 * pi)) idx) cnt) (Fin (pi / 2))"

definition getGraphCoords :: "real \<Rightarrow> jsnum \<Rightarrow> nat \<Rightarrow> jsnum \<times> jsnum" where
  "getGraphCoords radius idx cnt =
     (js_mult (js_cos (graph_angle idx cnt)) (Fin radius),
      js_mult (js_sin (graph_angle idx cnt)) (Fin radius))"

text \<open>
  The \<open><line>\<close> drawn for an edge, when \<open>fromIdx >= 0 && toIdx >= 0\<close>:
  \<^verbatim>\<open>const start = getGraphCoords(fromIdx, nodes.length);
const end = getGraphCoords(toIdx, nodes.length);
<line x1={centerX + start.x} y1={centerY + start.y} x2={centerX + end.x} y2={centerY + end.y} .../>\<close>
  with \<open>centerX = 400\<close> and \<open>centerY = 300\<close>.
\<close>

record line_coords =
  line_x1 :: jsnum
  line_y1 :: jsnum
  line_x2 :: jsnum
  line_y2 :: jsnum

definition graph_edge_line :: "string list \<Rightarrow> graph_edge \<Rightarrow> line_coords option" where
  "graph_edge_line nodes edge =
     (let fromIdx = edge_index nodes (edge_source edge) (edge_from edge);
          toIdx = edge_index nodes (edge_target edge) (edge_to edge)
      in if js_ge0 fromIdx \<and> js_ge0 toIdx then
           (let start = getGraphCoords (graph_radius (length nodes)) fromIdx (length nodes);
                end' = getGraphCoords (graph_radius (length nodes)) toIdx (length nodes)
            in Some \<lparr>line_x1 = js_add (Fin 400) (fst start),
                     line_y1 = js_add (Fin 300) (snd start),
                     line_x2 = js_add (Fin 400) (fst end'),
                     line_y2 = js_add (Fin 300) (snd end')\<rparr>)
         else None)"

text \<open>
  The coordinates the array branch hands to \<open>renderNode\<close>:
  \<open>renderNode(val, idx, arrStartX + idx * spacing, 0, ...)\<close>.
\<close>

definition render_array_node :: "nat \<Rightarrow> nat \<Rightarrow> node_style" where
  "render_array_node n idx = renderNode (Fin (arr_node_x n idx)) (Fin 0)"

section \<open>simulateCode (algovision-pro/services/geminiService.ts and unnamed/part_005)\<close>

text \<open>
  A JavaScript value as \<open>JSON.parse\<close> can produce it, with \<open>undefined\<close> for what a
  property read can give. An object is the association list of its own properties.
\<close>

datatype jsval =
    JUndefined
  | JNull
  | JBool bool
  | JNum real
  | JStr string
  | JArr "jsval list"
  | JObj "(string \<times> jsval) list"

text \<open>
  The property read \<open>v.k\<close>, for the keys \<open>viz\<close>, \<open>data\<close> and \<open>pointers\<close> (no
  prototype defines them): a TypeError on \<open>undefined\<close> and \<open>null\<close>, the own property of
  an object, \<open>undefined\<close> otherwise.
\<close>

fun get_prop :: "jsval \<Rightarrow> string \<Rightarrow> js_error + jsval" where
  "get_prop JUndefined k = Inl TypeError"
| "get_prop JNull k = Inl TypeError"
| "get_prop (JObj kvs) k = Inr (case map_of kvs k of None \<Rightarrow> JUndefined | Some v \<Rightarrow> v)"
| "get_prop v k = Inr JUndefined"

text \<open>A value used as a condition.\<close>

fun truthy :: "jsval \<Rightarrow> bool" where
  "truthy JUndefined = False"
| "truthy JNull = False"
| "truthy (JBool b) = b"
| "truthy (JNum r) = (r \<noteq> 0)"
| "truthy (JStr s) = (s \<noteq> [])"
| "truthy v = True"

text \<open>
  The own enumerable properties that an object spread \<open>{...v}\<close> copies: those of an
  object, the indexed elements of an array, the indexed characters of a string,
  nothing for the other values.
\<close>

fun own_props :: "jsval \<Rightarrow> (string \<times> jsval) list" where
  "own_props (JObj kvs) = kvs"
| "own_props (JArr xs) = map (\<lambda>(i, v). (string_of_nat i, v)) (enumerate 0 xs)"
| "own_props (JStr s) = map (\<lambda>(i, c). (string_of_nat i, JStr [c])) (enumerate 0 s)"
| "own_props v = []"

text \<open>
  One step of \<open>rawSteps.map((s) => { ... })\<close>. \<open>JSON.parse\<close> is the parameter \<open>parse\<close>: it
  takes the value it is called with (the built-in converts it to a string first) and
  gives \<open>None\<close> where the built-in throws.
  \<^verbatim>\<open>let parsedData;
try { parsedData = JSON.parse(s.viz.data); } catch { parsedData = s.viz.data; }
let parsedPointers = {};
try { parsedPointers = s.viz.pointers ? JSON.parse(s.viz.pointers) : {}; } catch { parsedPointers = {}; }
return { ...s, viz: { ...s.viz, data: parsedData, pointers: parsedPointers } };\<close>
  When \<open>s.viz.data\<close> itself throws, the first \<open>catch\<close> evaluates it again and the
  TypeError leaves the callback. geminiService.ts adds \<open>type: type\<close> after the spread
  of \<open>s.viz\<close>; \<open>ty\<close> is \<open>Some type\<close> for it and \<open>None\<close> for part_005.
\<close>

definition viz_field :: "jsval \<Rightarrow> string \<Rightarrow> js_error + jsval" where
  "viz_field s k = (case get_prop s ''viz'' of Inl e \<Rightarrow> Inl e | Inr viz \<Rightarrow> get_prop viz k)"

definition parsedData :: "(jsval \<Rightarrow> jsval option) \<Rightarrow> jsval \<Rightarrow> js_error + jsval" where
  "parsedData parse s =
     (case viz_field s ''data'' of
        Inl e \<Rightarrow> viz_field s ''data''
      | Inr d \<Rightarrow> (case parse d of None \<Rightarrow> viz_field s ''data'' | Some v \<Rightarrow> Inr v))"

definition parsedPointers :: "(jsval \<Rightarrow> jsval option) \<Rightarrow> jsval \<Rightarrow> jsval" where
  "parsedPointers parse s =
     (case viz_field s ''pointers'' of
        Inl e \<Rightarrow> JObj []
      | Inr p \<Rightarrow>
          if truthy p then (case parse p of None \<Rightarrow> JObj [] | Some v \<Rightarrow> v) else JObj [])"

definition with_type :: "string option \<Rightarrow> (string \<times> jsval) list \<Rightarrow> (string \<times> jsval) list" where
  "with_type ty kvs = (case ty of None \<Rightarrow> kvs | Some t \<Rightarrow> AList.update ''type'' (JStr t) kvs)"

definition process_step ::
  "(jsval \<Rightarrow> jsval option) \<Rightarrow> string option \<Rightarrow> jsval \<Rightarrow> js_error + jsval" where
  "process_step parse ty s =
     (case parsedData parse s of
        Inl e \<Rightarrow> Inl e
      | Inr pd \<Rightarrow>
          (case get_prop s ''viz'' of
             Inl e \<Rightarrow> Inl e
           | Inr viz \<Rightarrow>
               Inr (JObj (AList.update ''viz''
                      (JObj (AList.update ''pointers'' (parsedPointers parse s)
                              (AList.update ''data'' pd (with_type ty (own_props viz)))))
                      (own_props s)))))"

text \<open>\<open>Array.prototype.map\<close> with a callback that may throw: the first throw ends it.\<close>

fun map_steps :: "(jsval \<Rightarrow> js_error + jsval) \<Rightarrow> jsval list \<Rightarrow> js_error + jsval list" where
  "map_steps f [] = Inr []"
| "map_steps f (s # rest) =
     (case f s of
        Inl e \<Rightarrow> Inl e
      | Inr r \<Rightarrow> (case map_steps f rest of Inl e \<Rightarrow> Inl e | Inr rs \<Rightarrow> Inr (r # rs)))"

text \<open>
  The body of the outer \<open>try\<close>: \<open>rawSteps.map\<close> is a TypeError unless \<open>rawSteps\<close> is an
  array.
\<close>

definition process_rawSteps ::
  "(jsval \<Rightarrow> jsval option) \<Rightarrow> string option \<Rightarrow> jsval \<Rightarrow> js_error + jsval list" where
  "process_rawSteps parse ty rawSteps =
     (case rawSteps of JArr xs \<Rightarrow> map_steps (process_step parse ty) xs | _ \<Rightarrow> Inl TypeError)"

text \<open>
  \<^verbatim>\<open>try { const rawSteps = JSON.parse(response.text); return rawSteps.map(...); }
catch (e) { console.error("Failed to parse Gemini response", e); return []; }\<close>
  The result is the list of \<open>console.error\<close> calls made and the steps returned. The
  error caught is the SyntaxError of \<open>JSON.parse\<close> or the TypeError of the processing.
  (The \<open>console.log\<close> calls of geminiService.ts are not \<open>console.error\<close> and are left
  out; the one that can throw is in \<open>simulateCode\<close> below.)
\<close>

definition parse_response ::
  "(jsval \<Rightarrow> jsval option) \<Rightarrow> string option \<Rightarrow> jsval \<Rightarrow> console_line list \<times> jsval list" where
  "parse_response parse ty text =
     (case parse text of
        None \<Rightarrow> ([(''Failed to parse Gemini response'', SyntaxError)], [])
      | Some rawSteps \<Rightarrow>
          (case process_rawSteps parse ty rawSteps of
             Inl e \<Rightarrow> ([(''Failed to parse Gemini response'', e)], [])
           | Inr processed \<Rightarrow> ([], processed)))"

text \<open>
  \<open>simulateCode\<close> of unnamed/part_005. \<open>api\<close> is how the awaited request (after the
  retries of \<open>withRetry\<close>) settles: rejected, or a response whose \<open>text\<close> is given
  (\<open>JUndefined\<close> for a response without text). The result is the \<open>console.error\<close>
  calls made and how the returned promise settles.
\<close>

definition simulateCode_retry ::
  "(jsval \<Rightarrow> jsval option) \<Rightarrow> js_error + jsval
     \<Rightarrow> console_line list \<times> (js_error + jsval list)" where
  "simulateCode_retry parse api =
     (case api of
        Inl e \<Rightarrow> ([], Inl e)
      | Inr text \<Rightarrow>
          (fst (parse_response parse None text), Inr (snd (parse_response parse None text))))"

text \<open>
  \<open>simulateCode\<close> of geminiService.ts, called with the algorithm type \<open>type\<close>. Before
  the \<open>try\<close> it runs
  \<^verbatim>\<open>console.log("Gemini response received:", response.text.substring(0, 200));\<close>
  a TypeError outside the \<open>try\<close> when \<open>text\<close> is not a string.
\<close>

definition simulateCode ::
  "(jsval \<Rightarrow> jsval option) \<Rightarrow> string \<Rightarrow> js_error + jsval
     \<Rightarrow> console_line list \<times> (js_error + jsval list)" where
  "simulateCode parse type' api =
     (case api of
        Inl e \<Rightarrow> ([], Inl e)
      | Inr text \<Rightarrow>
          (case text of
             JStr t \<Rightarrow>
               (fst (parse_response parse (Some type') text),
                Inr (snd (parse_response parse (Some type') text)))
           | _ \<Rightarrow> ([], Inl TypeError)))"

text \<open>
  \<open>handleRun\<close> of App.tsx together with the \<open>simulateCode\<close> it awaits:
  \<open>setIsLoading(true)\<close>, then \<open>simulateCode\<close> runs and makes its \<open>console.error\<close>
  calls, then its settled promise is handled.
\<close>

definition run_simulation ::
  "(jsval \<Rightarrow> jsval option) \<Rightarrow> string \<Rightarrow> jsval app_state \<Rightarrow> js_error + jsval \<Rightarrow> jsval app_state" where
  "run_simulation parse algoType st api =
     handleRun_settle
       ((handleRun_start st)\<lparr>console :=
            console (handleRun_start st) @ fst (simulateCode parse algoType api)\<rparr>)
       (snd (simulateCode parse algoType api))"

text \<open>
  A \<open>JSON.parse\<close> given by the table of the texts it accepts in the examples below;
  it throws on every other argument, among them \<open>undefined\<close>, \<open>Sorry\<close>, \<open>3 1 2\<close> and
  \<open>i=2\<close>.
\<close>

definition example_step :: jsval where
  "example_step =
     JObj [(''codeLine'', JNum 4), (''message'', JStr ''done''),
           (''viz'', JObj [(''type'', JStr ''x''), (''data'', JStr ''3 1 2''),
                           (''pointers'', JStr ''i=2'')])]"

definition example_parse :: "jsval \<Rightarrow> jsval option" where
  "example_parse =
     map_of
       [(JStr ''[steps]'',
         JArr [JObj [(''codeLine'', JNum 3), (''message'', JStr ''swap''),
                     (''viz'', JObj [(''type'', JStr ''x''), (''data'', JStr ''[3,1,2]'')])],
               example_step]),
        (JStr ''[3,1,2]'', JArr [JNum 3, JNum 1, JNum 2])]"

section \<open>Properties of step playback\<close>

lemma app_step_steps: "steps (app_step st a) = steps st"
  by (cases a) (simp_all add: next_click_def prev_click_def tick_def)

lemma app_step_ok: "app_cursor_ok st \<Longrightarrow> app_cursor_ok (app_step st a)"
  by (cases a) (auto simp: app_cursor_ok_def next_click_def prev_click_def tick_def)

lemma app_run_ok: "app_cursor_ok st \<Longrightarrow> app_cursor_ok (app_run st as)"
  by (induction as arbitrary: st) (simp_all add: app_step_ok)

lemma app_run_steps: "steps (app_run st as) = steps st"
  by (induction as arbitrary: st) (simp_all add: app_step_steps)

lemma holo_step_meta: "algoMetadata (holo_step st a) = algoMetadata st"
  by (cases a)
     (simp_all add: hologramNextStep_def hologramPrevStep_def hologramTick_def
        split: option.splits)

lemma holo_step_ok: "holo_cursor_ok st \<Longrightarrow> holo_cursor_ok (holo_step st a)"
  by (cases a)
     (auto simp: holo_cursor_ok_def hologramNextStep_def hologramPrevStep_def
        hologramTick_def split: option.splits)

lemma holo_run_ok: "holo_cursor_ok st \<Longrightarrow> holo_cursor_ok (holo_run st as)"
  by (induction as arbitrary: st) (simp_all add: holo_step_ok)

lemma holo_run_meta: "algoMetadata (holo_run st as) = algoMetadata st"
  by (induction as arbitrary: st) (simp_all add: holo_step_meta)

text \<open>
  C1. With a loaded sequence of length \<open>L \<ge> 1\<close> and a cursor in \<open>[0, L-1]\<close>, every
  finite run of next, prev and auto-play ticks keeps the cursor in \<open>[0, L-1]\<close>, in
  both players; next (and a tick) at the last index stays at \<open>L-1\<close> and prev at
  index 0 stays at 0.
\<close>

theorem cursor_clamping:
  "(app_cursor_ok st \<longrightarrow>
      0 \<le> currentStepIdx (app_run st ops)
    \<and> currentStepIdx (app_run st ops) \<le> int (length (steps st)) - 1)
 \<and> currentStepIdx (next_click (st\<lparr>currentStepIdx := int (length (steps st)) - 1\<rparr>))
      = int (length (steps st)) - 1
 \<and> currentStepIdx (tick (st\<lparr>currentStepIdx := int (length (steps st)) - 1\<rparr>))
      = int (length (steps st)) - 1
 \<and> currentStepIdx (prev_click (st\<lparr>currentStepIdx := 0\<rparr>)) = 0
 \<and> (algoMetadata h = Some ss \<and> holo_cursor_ok h \<longrightarrow>
      0 \<le> currentStepIndex (holo_run h ops)
    \<and> currentStepIndex (holo_run h ops) \<le> int (length ss) - 1
    \<and> currentStepIndex (hologramNextStep (h\<lparr>currentStepIndex := int (length ss) - 1\<rparr>))
         = int (length ss) - 1
    \<and> currentStepIndex (hologramTick (h\<lparr>currentStepIndex := int (length ss) - 1\<rparr>))
         = int (length ss) - 1)
 \<and> currentStepIndex (hologramPrevStep (h\<lparr>currentStepIndex := 0\<rparr>)) = 0"
proof (intro conjI impI)
  assume ok: "app_cursor_ok st"
  from app_run_ok [OF ok, of ops]
  show "0 \<le> currentStepIdx (app_run st ops)"
    and "currentStepIdx (app_run st ops) \<le> int (length (steps st)) - 1"
    by (simp_all add: app_cursor_ok_def app_run_steps)
next
  show "currentStepIdx (next_click (st\<lparr>currentStepIdx := int (length (steps st)) - 1\<rparr>))
          = int (length (steps st)) - 1"
    by (simp add: next_click_def)
next
  show "currentStepIdx (tick (st\<lparr>currentStepIdx := int (length (steps st)) - 1\<rparr>))
          = int (length (steps st)) - 1"
    by (simp add: tick_def)
next
  show "currentStepIdx (prev_click (st\<lparr>currentStepIdx := 0\<rparr>)) = 0"
    by (simp add: prev_click_def)
next
  assume h: "algoMetadata h = Some ss \<and> holo_cursor_ok h"
  then have m: "algoMetadata h = Some ss" and ok: "holo_cursor_ok h"
    by simp_all
  have "algoMetadata (holo_run h ops) = Some ss"
    by (simp add: holo_run_meta m)
  with holo_run_ok [OF ok, of ops]
  show "0 \<le> currentStepIndex (holo_run h ops)"
    and "currentStepIndex (holo_run h ops) \<le> int (length ss) - 1"
    by (simp_all add: holo_cursor_ok_def)
  from m
  show "currentStepIndex (hologramNextStep (h\<lparr>currentStepIndex := int (length ss) - 1\<rparr>))
          = int (length ss) - 1"
    and "currentStepIndex (hologramTick (h\<lparr>currentStepIndex := int (length ss) - 1\<rparr>))
          = int (length ss) - 1"
    by (simp_all add: hologramNextStep_def hologramTick_def)
next
  show "currentStepIndex (hologramPrevStep (h\<lparr>currentStepIndex := 0\<rparr>)) = 0"
    by (simp add: hologramPrevStep_def)
qed

theorem cursor_clamping_witness:
  "app_cursor_ok \<lparr>steps = [10, 20, 30 :: nat], currentStepIdx = 1, isPlaying = True,
       isLoading = False, console = []\<rparr>
 \<and> currentStepIdx (app_run \<lparr>steps = [10, 20, 30 :: nat], currentStepIdx = 1,
       isPlaying = True, isLoading = False, console = []\<rparr>
       [Tick, Tick, Next, Next, Prev, Prev, Prev, Prev]) = 0
 \<and> holo_cursor_ok \<lparr>algoMetadata = Some [10, 20, 30 :: nat], currentStepIndex = 1,
       isHologramPlaying = True, isHologramLoading = False, alerts = []\<rparr>
 \<and> currentStepIndex (holo_run \<lparr>algoMetadata = Some [10, 20, 30 :: nat],
       currentStepIndex = 1, isHologramPlaying = True, isHologramLoading = False,
       alerts = []\<rparr> [Prev, Prev, Tick, Tick, Tick, Next, Next]) = 2"
  using cursor_clamping
    [of "\<lparr>steps = [10, 20, 30 :: nat], currentStepIdx = 1, isPlaying = True,
           isLoading = False, console = []\<rparr>"
        "[Tick, Tick, Next, Next, Prev, Prev, Prev, Prev]"
        "\<lparr>algoMetadata = Some [10, 20, 30 :: nat], currentStepIndex = 1,
           isHologramPlaying = True, isHologramLoading = False, alerts = []\<rparr>"
        "[10, 20, 30 :: nat]"]
  by (simp add: app_cursor_ok_def holo_cursor_ok_def next_click_def prev_click_def
        tick_def hologramNextStep_def hologramPrevStep_def hologramTick_def)

text \<open>
  C2 (as stated: after a load the cursor is 0 and auto-play is stopped). The code
  starts auto-play instead: from a paused player, a successful load of a non-empty
  sequence leaves \<open>isPlaying\<close> and \<open>isHologramPlaying\<close> set.
\<close>

theorem load_stops_autoplay_counterexample:
  "isPlaying (handleRun \<lparr>steps = [10, 20 :: nat], currentStepIdx = 1, isPlaying = False,
       isLoading = False, console = []\<rparr> (Inr [30, 40, 50]))
 \<and> isHologramPlaying (handleHologramAnalyze \<lparr>algoMetadata = Some [10, 20 :: nat],
       currentStepIndex = 1, isHologramPlaying = False, isHologramLoading = False,
       alerts = []\<rparr> (Inr [30, 40, 50]))"
  by (simp add: handleRun_def handleRun_start_def handleRun_settle_def
        handleHologramAnalyze_def handleHologramAnalyze_start_def
        handleHologramAnalyze_settle_def)

text \<open>
  C2 (amended). After a load completes, the new sequence is installed and the cursor
  is 0, whatever the prior state. Auto-play is then running: always in the hologram
  engine (\<open>setIsHologramPlaying(true)\<close>, "Auto-start playback after analysis"); in
  App.tsx exactly when the new sequence is non-empty or playback was already running
  (\<open>if (resultSteps.length > 0) setIsPlaying(true)\<close>).
\<close>

theorem load_resets_cursor_and_starts_autoplay:
  "steps (handleRun st (Inr new)) = new
 \<and> currentStepIdx (handleRun st (Inr new)) = 0
 \<and> isPlaying (handleRun st (Inr new)) = (0 < length new \<or> isPlaying st)
 \<and> algoMetadata (handleHologramAnalyze h (Inr new)) = Some new
 \<and> currentStepIndex (handleHologramAnalyze h (Inr new)) = 0
 \<and> isHologramPlaying (handleHologramAnalyze h (Inr new))"
  by (simp add: handleRun_def handleRun_start_def handleRun_settle_def
        handleHologramAnalyze_def handleHologramAnalyze_start_def
        handleHologramAnalyze_settle_def)

text \<open>
  C3 (empty sequence: next, prev and seek leave the cursor unchanged). In App.tsx the
  next button computes \<open>Math.min(steps.length - 1, currentStepIdx + 1)\<close>, which for the
  empty sequence is \<open>Math.min(-1, 1)\<close>: the cursor leaves 0 and becomes \<open>-1\<close>. The
  hologram engine's \<open>hologramNextStep\<close> leaves the cursor at 0 on the same input.
\<close>

theorem next_on_empty_sequence_moves_cursor:
  "currentStepIdx (next_click \<lparr>steps = ([] :: nat list), currentStepIdx = 0,
       isPlaying = False, isLoading = False, console = []\<rparr>) = - 1
 \<and> currentStepIndex (hologramNextStep \<lparr>algoMetadata = Some ([] :: nat list),
       currentStepIndex = 0, isHologramPlaying = False, isHologramLoading = False,
       alerts = []\<rparr>) = 0"
  by (simp add: next_click_def hologramNextStep_def)

section \<open>Properties of the interaction overlay and the linear layout\<close>

lemma pinch_trace_hold:
  "i < length fs \<Longrightarrow> fs ! i = Some d \<Longrightarrow> was_pinching p (pinch_trace p fs) i \<Longrightarrow>
   pinch_trace p fs ! i = (d < pinchOff)"
proof (induction fs arbitrary: p i)
  case Nil
  then show ?case by simp
next
  case (Cons f fs)
  show ?case
  proof (cases i)
    case 0
    with Cons.prems show ?thesis
      by (simp add: was_pinching_def isPinching_of_def)
  next
    case (Suc j)
    with Cons.prems have "j < length fs" "fs ! j = Some d"
      and "was_pinching (pinch_frame p f) (pinch_trace (pinch_frame p f) fs) j"
      by (auto simp: was_pinching_def split: if_splits)
    from Cons.IH [OF this] Suc show ?thesis
      by simp
  qed
qed

lemma pinch_trace_tsx_hold:
  "i < length fs \<Longrightarrow> fs ! i = Some d \<Longrightarrow> was_pinching p (pinch_trace_tsx p fs) i \<Longrightarrow>
   pinch_trace_tsx p fs ! i = (d < pinchOff_tsx)"
proof (induction fs arbitrary: p i)
  case Nil
  then show ?case by simp
next
  case (Cons f fs)
  show ?case
  proof (cases i)
    case 0
    with Cons.prems show ?thesis
      by (simp add: was_pinching_def isPinching_tsx_def)
  next
    case (Suc j)
    with Cons.prems have "j < length fs" "fs ! j = Some d"
      and "was_pinching (pinch_frame_tsx p f) (pinch_trace_tsx (pinch_frame_tsx p f) fs) j"
      by (auto simp: was_pinching_def split: if_splits)
    from Cons.IH [OF this] Suc show ?thesis
      by simp
  qed
qed

text \<open>
  C5. The engage threshold is strictly below the release threshold. A grab starts
  only below the engage threshold. In any sequence of frames, a frame that finds
  \<open>isPinching\<close> set and carries distance \<open>d\<close> leaves it set exactly when \<open>d\<close> is below
  the release threshold: it stays set for every distance under the release threshold
  (also between the two thresholds) and is cleared only by a distance at or above
  it. Both visualizers.
\<close>

theorem pinch_hysteresis:
  "pinchOn < pinchOff \<and> pinchOn_tsx < pinchOff_tsx
 \<and> isPinching_of False d = (d < pinchOn)
 \<and> isPinching_tsx False d = (d < pinchOn_tsx)
 \<and> (i < length fs \<and> fs ! i = Some d \<and> was_pinching p (pinch_trace p fs) i \<longrightarrow>
       pinch_trace p fs ! i = (d < pinchOff))
 \<and> (i < length fs \<and> fs ! i = Some d \<and> was_pinching p (pinch_trace_tsx p fs) i \<longrightarrow>
       pinch_trace_tsx p fs ! i = (d < pinchOff_tsx))"
  using pinch_trace_hold [of i fs d p] pinch_trace_tsx_hold [of i fs d p]
  by (simp add: pinchOn_def pinchOff_def pinchOn_tsx_def pinchOff_tsx_def
        isPinching_of_def isPinching_tsx_def)

theorem pinch_hysteresis_witness:
  "pinch_trace False [Some 0.2, Some 0.05, Some 0.07, Some 0.085, Some 0.07, Some 0.09, Some 0.07]
     = [False, True, True, True, True, False, False]
 \<and> was_pinching False (pinch_trace False
       [Some 0.2, Some 0.05, Some 0.07, Some 0.085, Some 0.07, Some 0.09, Some 0.07]) 3
 \<and> pinch_trace False
       [Some 0.2, Some 0.05, Some 0.07, Some 0.085, Some 0.07, Some 0.09, Some 0.07] ! 3
 \<and> pinch_trace_tsx False [Some 0.2, Some 0.05, Some 0.07, Some 0.085, Some 0.07, Some 0.09, Some 0.07]
     = [False, True, True, False, False, False, False]
 \<and> was_pinching False (pinch_trace_tsx False
       [Some 0.2, Some 0.05, Some 0.07, Some 0.085, Some 0.07, Some 0.09, Some 0.07]) 3
 \<and> \<not> pinch_trace_tsx False
       [Some 0.2, Some 0.05, Some 0.07, Some 0.085, Some 0.07, Some 0.09, Some 0.07] ! 3"
  using pinch_hysteresis
    [of "0.085" 3 "[Some 0.2, Some 0.05, Some 0.07, Some 0.085, Some 0.07, Some 0.09, Some 0.07]"
        False]
  by (simp add: pinchOn_def pinchOff_def pinchOn_tsx_def pinchOff_tsx_def
        isPinching_of_def isPinching_tsx_def was_pinching_def)

lemma getBasePositions_nth:
  "i < n \<Longrightarrow> getBasePositions n width height ! i =
     (item_id i, \<lparr>pos_x = startX n width + real i * (blockW + gap),
                  pos_y = height / 2 - blockH / 2\<rparr>)"
  by (simp add: getBasePositions_def)

lemma startX_centred:
  "width * 0.42 \<le> (width - totalWidth n) / 2 \<Longrightarrow>
   startX n width + real i * (blockW + gap)
     = linear_layout_spec (width / 2 - blockW / 2) (blockW + gap) n i"
  by (simp add: startX_def totalWidth_def linear_layout_spec_def max_def field_simps)

lemma startX_clamped:
  "(width - totalWidth n) / 2 \<le> width * 0.42 \<Longrightarrow> startX n width = width * 0.42"
  by (simp add: startX_def max_def)

lemma startX_tsx_centred:
  "width * 0.45 \<le> width * 0.4 + (width * 0.55 - totalWidth_tsx n) / 2 \<Longrightarrow>
   item_x_tsx n width i dx
     = linear_layout_spec (width * 0.675 - blockW_tsx / 2) (blockW_tsx + gap_tsx) n i + dx"
  by (simp add: item_x_tsx_def startX_tsx_def totalWidth_tsx_def linear_layout_spec_def
        max_def field_simps)

lemma startX_tsx_clamped:
  "width * 0.4 + (width * 0.55 - totalWidth_tsx n) / 2 \<le> width * 0.45 \<Longrightarrow>
   item_x_tsx n width i dx = width * 0.45 + real i * (blockW_tsx + gap_tsx) + dx"
  by (simp add: item_x_tsx_def startX_tsx_def max_def)

lemma arr_node_x_centred:
  "1 \<le> n \<Longrightarrow> arr_node_x n i = linear_layout_spec 0 90 n i"
  by (simp add: arr_node_x_def arrStartX_def linear_layout_spec_def max_def)

text \<open>
  C6 (as stated: element \<open>i\<close> sits at \<open>a + i*p - (n-1)*p/2\<close>, the row centred on the
  anchor). In a view 1000 wide, \<open>getBasePositions\<close> puts a single block at 455, which
  is the formula at anchor 455 (the block centred on 500); for five blocks the same
  anchor gives 205, 330, 455, 580, 705, but the code returns 420, 545, 670, 795, 920:
  \<open>Math.max(width * 0.42, ...)\<close> pins the row's left edge. Visualizer.tsx does the
  same with \<open>width * 0.45\<close>: one block at 645, ten blocks start at 450, not at 312.
\<close>

theorem linear_layout_counterexample:
  "map (pos_x \<circ> snd) (getBasePositions 1 1000 800) = [455]
 \<and> linear_layout_spec 455 (blockW + gap) 1 0 = 455
 \<and> map (pos_x \<circ> snd) (getBasePositions 5 1000 800) = [420, 545, 670, 795, 920]
 \<and> map (linear_layout_spec 455 (blockW + gap) 5) [0, 1, 2, 3, 4] = [205, 330, 455, 580, 705]
 \<and> pos_x (snd (getBasePositions 5 1000 800 ! 0)) \<noteq> linear_layout_spec 455 (blockW + gap) 5 0
 \<and> item_x_tsx 1 1000 0 0 = 645
 \<and> linear_layout_spec 645 (blockW_tsx + gap_tsx) 1 0 = 645
 \<and> item_x_tsx 10 1000 0 0 = 450
 \<and> linear_layout_spec 645 (blockW_tsx + gap_tsx) 10 0 = 312"
  by (simp add: getBasePositions_def startX_def totalWidth_def blockW_def blockH_def gap_def
        linear_layout_spec_def item_x_tsx_def startX_tsx_def totalWidth_tsx_def
        blockW_tsx_def gap_tsx_def upt_rec [of _ "numeral _"] upt_rec [of _ 1])

text \<open>
  C6 (amended). The hologram renderer's array branch places element \<open>i\<close> of
  \<open>n \<ge> 1\<close> at \<open>0 + i*90 - (n-1)*90/2\<close>: the formula with anchor 0 and pitch 90.
  \<open>getBasePositions\<close> (pitch 125) and Visualizer.tsx (pitch 74) follow the formula,
  with the anchor at the middle of the view (resp. of its right-hand 55 per cent) less
  half a block, only while the centred start is not left of \<open>0.42 * width\<close>
  (resp. \<open>0.45 * width\<close>); otherwise the row starts at that bound and element \<open>i\<close>
  sits \<open>i\<close> pitches to its right.
\<close>

theorem linear_layout_formula:
  "(1 \<le> n \<and> i < n \<longrightarrow> arr_node_x n i = linear_layout_spec 0 90 n i)
 \<and> (i1 < n1 \<and> w1 * 0.42 \<le> (w1 - totalWidth n1) / 2 \<longrightarrow>
       getBasePositions n1 w1 height ! i1 =
         (item_id i1,
          \<lparr>pos_x = linear_layout_spec (w1 / 2 - blockW / 2) (blockW + gap) n1 i1,
           pos_y = height / 2 - blockH / 2\<rparr>))
 \<and> (i2 < n2 \<and> (w2 - totalWidth n2) / 2 \<le> w2 * 0.42 \<longrightarrow>
       getBasePositions n2 w2 height ! i2 =
         (item_id i2,
          \<lparr>pos_x = w2 * 0.42 + real i2 * (blockW + gap),
           pos_y = height / 2 - blockH / 2\<rparr>))
 \<and> (w3 * 0.45 \<le> w3 * 0.4 + (w3 * 0.55 - totalWidth_tsx n3) / 2 \<longrightarrow>
       item_x_tsx n3 w3 i3 dx =
         linear_layout_spec (w3 * 0.675 - blockW_tsx / 2) (blockW_tsx + gap_tsx) n3 i3 + dx)
 \<and> (w4 * 0.4 + (w4 * 0.55 - totalWidth_tsx n4) / 2 \<le> w4 * 0.45 \<longrightarrow>
       item_x_tsx n4 w4 i4 dx = w4 * 0.45 + real i4 * (blockW_tsx + gap_tsx) + dx)"
  by (simp add: arr_node_x_centred getBasePositions_nth startX_centred startX_clamped
        startX_tsx_centred startX_tsx_clamped)

theorem linear_layout_formula_witness:
  "map (arr_node_x 5) [0, 1, 2, 3, 4] = [-180, -90, 0, 90, 180]
 \<and> (1::nat) < 2 \<and> 2000 * 0.42 \<le> (2000 - totalWidth 2) / (2::real)
 \<and> getBasePositions 2 2000 800 ! 1 = (item_id 1, \<lparr>pos_x = 1017.5, pos_y = 355\<rparr>)
 \<and> (4::nat) < 5 \<and> (1000 - totalWidth 5) / 2 \<le> 1000 * (0.42::real)
 \<and> getBasePositions 5 1000 800 ! 4 = (item_id 4, \<lparr>pos_x = 920, pos_y = 355\<rparr>)
 \<and> 1000 * 0.45 \<le> 1000 * 0.4 + (1000 * 0.55 - totalWidth_tsx 5) / (2::real)
 \<and> item_x_tsx 5 1000 2 0 = 645
 \<and> 1000 * 0.4 + (1000 * 0.55 - totalWidth_tsx 10) / 2 \<le> 1000 * (0.45::real)
 \<and> item_x_tsx 10 1000 9 0 = 1116"
  using linear_layout_formula
    [of 5 0 1 2 2000 800 4 5 1000 1000 5 2 0 1000 10 9]
    linear_layout_formula [of 5 1] linear_layout_formula [of 5 2]
    linear_layout_formula [of 5 3] linear_layout_formula [of 5 4]
  by (simp add: totalWidth_def totalWidth_tsx_def blockW_def blockH_def gap_def
        blockW_tsx_def gap_tsx_def linear_layout_spec_def)










lemma tracking_lost_reverts:
  "grabbedId st = Some g \<Longrightarrow> g \<noteq> [] \<Longrightarrow> grabbedStartPos st = Some startPos \<Longrightarrow>
   map_of (elementPositions (tracking_lost st)) = (map_of (elementPositions st))(g \<mapsto> startPos)
   \<and> grabbedId (tracking_lost st) = None \<and> grabbedStartPos (tracking_lost st) = None"
  by (simp add: tracking_lost_def update_conv')

section \<open>Properties of the hologram renderer's layout\<close>

text \<open>
  C7 (after the overlap-resolution step all same-level neighbours are at least
  \<open>minGap\<close> apart). The level-order tree \<open>[1,2,3,4,5,6,null,7,null,null,null,8]\<close>
  has three nodes on level 2, placed at -35, 0 and 35; \<open>minGap\<close> is 56. The single
  left-to-right pass pushes the first pair to -45.5 and 10.5, then the second pair to
  -5.25 and 50.75, which brings the first pair back to a gap of 40.25. The gap is
  still there in the result of \<open>calculatePositions\<close>.
\<close>

theorem overlap_pass_leaves_overlap:
  "map node_x (filter (\<lambda>n. node_level n = 2)
        (place_nodes (parse_level_order unbalanced_level_order))) = [- 35, 0, 35]
 \<and> minGap (place_nodes (parse_level_order unbalanced_level_order)) = 56
 \<and> map node_x (filter (\<lambda>n. node_level n = 2)
        (resolve_overlaps (place_nodes (parse_level_order unbalanced_level_order))))
      = [- 45.5, - 5.25, 50.75]
 \<and> level_gaps (resolve_overlaps (place_nodes (parse_level_order unbalanced_level_order))) 2
      = [40.25, 56]
 \<and> \<not> overlaps_resolved
        (resolve_overlaps (place_nodes (parse_level_order unbalanced_level_order)))
 \<and> \<not> overlaps_resolved (calculatePositions (parse_level_order unbalanced_level_order))"
  by code_simp

lemma renderNode_finite:
  "isFinite (style_left (renderNode x y)) \<and> isFinite (style_top (renderNode x y))"
  by (simp add: renderNode_def)

text \<open>
  C8 (every coordinate handed to the renderer is finite). \<open>renderNode\<close> does
  substitute 0 for a non-finite coordinate, but the graph branch draws its edge lines
  without it: for the state \<open>{nodes: [], edges: [{source: 0, target: 0}]}\<close> both
  indices pass \<open>>= 0\<close>, \<open>getGraphCoords(0, 0)\<close> computes \<open>2 * Math.PI * 0 / 0\<close>, and
  all four coordinates of the \<open><line>\<close> are \<open>NaN\<close>.
\<close>

theorem graph_edge_line_not_finite:
  "renderNode NaN PInf = \<lparr>style_left = Fin 0, style_top = Fin 0\<rparr>
 \<and> render_array_node 3 0 = \<lparr>style_left = Fin (- 90), style_top = Fin 0\<rparr>
 \<and> graph_edge_line []
      \<lparr>edge_source = NumEnd (Fin 0), edge_from = Undefined,
       edge_target = NumEnd (Fin 0), edge_to = Undefined\<rparr>
    = Some \<lparr>line_x1 = NaN, line_y1 = NaN, line_x2 = NaN, line_y2 = NaN\<rparr>
 \<and> \<not> isFinite NaN"
  by (simp add: renderNode_def render_array_node_def arr_node_x_def arrStartX_def
        graph_edge_line_def edge_index_def getGraphCoords_def graph_angle_def js_sub_def)

section \<open>Properties of simulateCode and of a failed analysis\<close>

lemma parse_response_unparseable:
  "parse text = None \<Longrightarrow>
   parse_response parse ty text = ([(''Failed to parse Gemini response'', SyntaxError)], [])"
  by (simp add: parse_response_def)

lemma viz_field_result:
  "viz_field (JObj (AList.update ''viz''
       (JObj (AList.update ''pointers'' pp (AList.update ''data'' pd kvs))) okvs)) ''data'' = Inr pd
 \<and> viz_field (JObj (AList.update ''viz''
       (JObj (AList.update ''pointers'' pp (AList.update ''data'' pd kvs))) okvs)) ''pointers'' = Inr pp"
  by (simp add: viz_field_def update_conv')

lemma process_step_ok:
  assumes "viz_field s ''data'' = Inr d"
  shows "\<exists>s'. process_step parse ty s = Inr s'
     \<and> viz_field s' ''data'' = Inr (case parse d of None \<Rightarrow> d | Some v \<Rightarrow> v)
     \<and> viz_field s' ''pointers'' = Inr (parsedPointers parse s)"
proof -
  from assms obtain viz where viz: "get_prop s ''viz'' = Inr viz"
    by (auto simp: viz_field_def split: sum.splits)
  have pd: "parsedData parse s = Inr (case parse d of None \<Rightarrow> d | Some v \<Rightarrow> v)"
    using assms by (simp add: parsedData_def split: option.splits)
  show ?thesis
    using viz pd viz_field_result by (simp add: process_step_def)
qed

lemma map_steps_Inr:
  "(\<And>s. s \<in> set xs \<Longrightarrow> \<exists>r. f s = Inr r) \<Longrightarrow>
   \<exists>rs. map_steps f xs = Inr rs \<and> length rs = length xs
      \<and> (\<forall>i < length xs. f (xs ! i) = Inr (rs ! i))"
proof (induction xs)
  case Nil
  then show ?case by simp
next
  case (Cons s rest)
  from Cons.prems obtain r where r: "f s = Inr r"
    by auto
  from Cons obtain rs where rs: "map_steps f rest = Inr rs" "length rs = length rest"
    "\<forall>i < length rest. f (rest ! i) = Inr (rs ! i)"
    by auto
  have "\<forall>i < length (s # rest). f ((s # rest) ! i) = Inr ((r # rs) ! i)"
    using r rs(3) by (auto simp: nth_Cons split: nat.splits)
  with r rs show ?case
    by simp
qed

text \<open>
  With a response text that parses to an array of steps whose \<open>viz.data\<close> can be
  read, both versions of \<open>simulateCode\<close> resolve with one processed step per raw step
  and print nothing: in the returned step, \<open>data\<close> is the parsed value, or the raw one
  when it does not parse, and \<open>pointers\<close> is the parsed value, or \<open>{}\<close> when it is
  absent or does not parse. With a text that does not parse they resolve with \<open>[]\<close>.
\<close>

lemma parse_response_steps:
  assumes raw: "parse text = Some (JArr xs)"
    and readable: "\<And>s. s \<in> set xs \<Longrightarrow> \<exists>d. viz_field s ''data'' = Inr d"
  shows "\<exists>rs. parse_response parse ty text = ([], rs) \<and> length rs = length xs
     \<and> (\<forall>i < length xs. \<forall>d. viz_field (xs ! i) ''data'' = Inr d \<longrightarrow>
           viz_field (rs ! i) ''data'' = Inr (case parse d of None \<Rightarrow> d | Some v \<Rightarrow> v)
         \<and> viz_field (rs ! i) ''pointers'' = Inr (parsedPointers parse (xs ! i)))"
proof -
  have "\<exists>r. process_step parse ty s = Inr r" if "s \<in> set xs" for s
    using readable [OF that] process_step_ok [of s _ parse ty] by blast
  from map_steps_Inr [of xs "process_step parse ty", OF this]
  obtain rs where rs: "map_steps (process_step parse ty) xs = Inr rs"
    "length rs = length xs" "\<forall>i < length xs. process_step parse ty (xs ! i) = Inr (rs ! i)"
    by auto
  have "viz_field (rs ! i) ''data'' = Inr (case parse d of None \<Rightarrow> d | Some v \<Rightarrow> v)
      \<and> viz_field (rs ! i) ''pointers'' = Inr (parsedPointers parse (xs ! i))"
    if "i < length xs" "viz_field (xs ! i) ''data'' = Inr d" for i d
    using process_step_ok [OF that(2), of parse ty] rs(3) that(1) by auto
  moreover have "parse_response parse ty text = ([], rs)"
    using raw rs(1) by (simp add: parse_response_def process_rawSteps_def)
  ultimately show ?thesis
    using rs(2) by blast
qed

lemma simulateCode_on_text:
  "(\<exists>lg rs. simulateCode_retry parse (Inr text) = (lg, Inr rs))
 \<and> (\<exists>lg rs. simulateCode parse algoType (Inr (JStr t)) = (lg, Inr rs))
 \<and> (parse text = None \<longrightarrow>
       simulateCode_retry parse (Inr text)
         = ([(''Failed to parse Gemini response'', SyntaxError)], Inr []))
 \<and> (parse (JStr t) = None \<longrightarrow>
       simulateCode parse algoType (Inr (JStr t))
         = ([(''Failed to parse Gemini response'', SyntaxError)], Inr []))
 \<and> simulateCode_retry parse (Inr text)
       = (fst (parse_response parse None text), Inr (snd (parse_response parse None text)))
 \<and> simulateCode parse algoType (Inr (JStr t))
       = (fst (parse_response parse (Some algoType) (JStr t)),
          Inr (snd (parse_response parse (Some algoType) (JStr t))))"
  by (simp add: simulateCode_retry_def simulateCode_def parse_response_unparseable)

text \<open>
  C10 (simulateCode never rejects because of the response body). The response of a
  request that returned without text has \<open>response.text === undefined\<close>. On it the
  \<open>simulateCode\<close> of unnamed/part_005 resolves with \<open>[]\<close>, as the claim says
  (\<open>JSON.parse(undefined)\<close> throws inside the \<open>try\<close>). The \<open>simulateCode\<close> of
  geminiService.ts rejects with a TypeError: its
  \<open>response.text.substring(0, 200)\<close> stands before the \<open>try\<close>.
\<close>

theorem simulateCode_rejects_without_text:
  "example_parse JUndefined = None
 \<and> simulateCode_retry example_parse (Inr JUndefined)
      = ([(''Failed to parse Gemini response'', SyntaxError)], Inr [])
 \<and> simulateCode example_parse ''ARRAY'' (Inr JUndefined) = ([], Inl TypeError)"
  by (simp add: example_parse_def simulateCode_retry_def simulateCode_def parse_response_def)

text \<open>
  C9 (as stated: a failed analysis, a response that cannot be parsed included, leaves
  the loaded sequence untouched and shows as a failure). In App.tsx a body that does
  not parse makes \<open>simulateCode\<close> print to the console and resolve with \<open>[]\<close>, and
  \<open>handleRun\<close> installs it: a player showing step 2 of 2 ends with no steps. And a
  rejected request changes nothing but the console: from the initial state the page
  stays as it is before any analysis.
\<close>

theorem failed_analysis_counterexample:
  "run_simulation example_parse ''ARRAY''
     \<lparr>steps = [example_step, example_step], currentStepIdx = 1, isPlaying = False,
      isLoading = False, console = []\<rparr> (Inr (JStr ''Sorry''))
   = \<lparr>steps = [], currentStepIdx = 0, isPlaying = False, isLoading = False,
      console = [(''Failed to parse Gemini response'', SyntaxError)]\<rparr>
 \<and> run_simulation example_parse ''ARRAY''
     \<lparr>steps = [], currentStepIdx = 0, isPlaying = False, isLoading = False, console = []\<rparr>
     (Inl (ApiError ''503''))
   = \<lparr>steps = [], currentStepIdx = 0, isPlaying = False, isLoading = False,
      console = [(''Simulation error:'', ApiError ''503'')]\<rparr>"
  by (simp add: run_simulation_def handleRun_start_def handleRun_settle_def
        simulateCode_def parse_response_def example_parse_def)

text \<open>
  C9 (amended). When the analysis request itself fails (the awaited call rejects),
  the loaded sequence, the cursor and the play flag are as before, in both players;
  the hologram engine shows an alert, App.tsx writes to the console only. When the
  response text cannot be parsed, App.tsx replaces the loaded sequence by the empty
  one and resets the cursor to 0, with nothing shown but a line on the console.
\<close>

theorem failed_analysis_state:
  "run_simulation parse algoType st (Inl e) =
     st\<lparr>console := console st @ [(''Simulation error:'', e)], isLoading := False\<rparr>
 \<and> handleHologramAnalyze h (Inl errorMsg) =
     h\<lparr>alerts := alerts h @ [analysis_alert errorMsg], isHologramLoading := False\<rparr>
 \<and> (parse (JStr t) = None \<longrightarrow>
       run_simulation parse algoType st (Inr (JStr t)) =
         st\<lparr>steps := [], currentStepIdx := 0,
            console := console st @ [(''Failed to parse Gemini response'', SyntaxError)],
            isLoading := False\<rparr>)"
  by (simp add: run_simulation_def handleRun_start_def handleRun_settle_def
        simulateCode_def parse_response_unparseable handleHologramAnalyze_def
        handleHologramAnalyze_start_def handleHologramAnalyze_settle_def)

theorem failed_analysis_state_witness:
  "example_parse (JStr ''Sorry'') = None
 \<and> run_simulation example_parse ''ARRAY''
     \<lparr>steps = [example_step], currentStepIdx = 0, isPlaying = True,
      isLoading = False, console = []\<rparr> (Inr (JStr ''Sorry''))
   = \<lparr>steps = [], currentStepIdx = 0, isPlaying = True, isLoading = False,
      console = [(''Failed to parse Gemini response'', SyntaxError)]\<rparr>
 \<and> run_simulation example_parse ''ARRAY''
     \<lparr>steps = [example_step], currentStepIdx = 0, isPlaying = True,
      isLoading = False, console = []\<rparr> (Inl (ApiError ''503''))
   = \<lparr>steps = [example_step], currentStepIdx = 0, isPlaying = True, isLoading = False,
      console = [(''Simulation error:'', ApiError ''503'')]\<rparr>
 \<and> handleHologramAnalyze
     \<lparr>algoMetadata = Some [example_step], currentStepIndex = 0, isHologramPlaying = True,
      isHologramLoading = False, alerts = []\<rparr> (Inl ''503 overloaded'')
   = \<lparr>algoMetadata = Some [example_step], currentStepIndex = 0, isHologramPlaying = True,
      isHologramLoading = False,
      alerts = [''API Service Temporarily Unavailable'' @ [CHR 0x0A, CHR 0x0A]
                @ ''The AI service is overloaded. Please wait a moment and try again.'']\<rparr>"
  using failed_analysis_state
    [of example_parse "''ARRAY''"
        "\<lparr>steps = [example_step], currentStepIdx = 0, isPlaying = True,
          isLoading = False, console = []\<rparr>"
        "ApiError ''503''"
        "\<lparr>algoMetadata = Some [example_step], currentStepIndex = 0, isHologramPlaying = True,
          isHologramLoading = False, alerts = []\<rparr>"
        "''503 overloaded''" "''Sorry''"]
  by (simp add: example_parse_def analysis_alert_def newline_def)

end
